theory Spec2Isabelle
  imports Main
begin

section \<open>The maximum of two values\<close>

text \<open>
  Modelled from the spec: the function \<open>cmake_tutorial::max\<close> of the header \<open>max.hpp\<close>,
  which \<open>main.cpp\<close> includes and calls but which is not among the sources. The spec
  (section 4.1) describes it as a pure function over a type with a strict total order that
  makes one less-than comparison and returns the value that is not smaller than the other;
  on equal arguments the first one is returned.
\<close>

definition cmake_tutorial_max :: "'a::linorder \<Rightarrow> 'a \<Rightarrow> 'a" where
  "cmake_tutorial_max a b = (if a < b then b else a)"

section \<open>The output stream\<close>

text \<open>
  \<open>std::cout\<close> is modelled by the sequence of characters inserted into it so far. The
  program performs three kinds of insertion: of a string literal, of an \<open>int\<close>
  (formatted in decimal, the default of a stream whose flags were never changed, with a
  minus sign for a negative value) and of \<open>std::endl\<close>, which inserts a newline
  character and flushes. Insertions are assumed to succeed.
\<close>

record ostream =
  content :: string

definition newline :: char where
  "newline = CHR 0x0A"

definition put_str :: "string \<Rightarrow> ostream \<Rightarrow> ostream" where
  "put_str s os = os\<lparr>content := content os @ s\<rparr>"

definition digit_char :: "nat \<Rightarrow> char" where
  "digit_char d = ''0123456789'' ! d"

function show_nat :: "nat \<Rightarrow> string" where
  "show_nat n = (if n < 10 then [digit_char n] else show_nat (n div 10) @ [digit_char (n mod 10)])"
  by pat_completeness auto
termination
  by (relation "measure (\<lambda>n. n)") auto

declare show_nat.simps [simp del]

definition show_int :: "int \<Rightarrow> string" where
  "show_int i = (if i < 0 then CHR ''-'' # show_nat (nat (- i)) else show_nat (nat i))"

definition put_int :: "int \<Rightarrow> ostream \<Rightarrow> ostream" where
  "put_int i os = os\<lparr>content := content os @ show_int i\<rparr>"

definition endl :: "ostream \<Rightarrow> ostream" where
  "endl os = os\<lparr>content := content os @ [newline]\<rparr>"

section \<open>The program\<close>

text \<open>
  The output statement of \<open>main\<close> (lines 9 and 10 of \<open>main.cpp\<close>), over the two local
  constants \<open>a\<close> and \<open>b\<close> it mentions. The parameter \<open>mx\<close> stands for the function
  that the call \<open>cmake_tutorial::max(a, b)\<close> resolves to: its header is not among the
  sources, so the statement is modelled for any function on \<open>int\<close> that returns and
  has no side effect.
  The values are C++ \<open>int\<close>s; the program does no arithmetic on them, so they are
  modelled by \<open>int\<close> and no wrap-around can arise.
\<close>

definition print_maximum :: "(int \<Rightarrow> int \<Rightarrow> int) \<Rightarrow> int \<Rightarrow> int \<Rightarrow> ostream \<Rightarrow> ostream" where
  "print_maximum mx a b os =
     endl (put_int (mx a b) (put_str '' is: '' (put_int b (put_str '' and ''
       (put_int a (put_str ''The maximum of '' os))))))"

text \<open>
  The statements of \<open>main\<close> that follow the declarations of its two constants, over
  the values \<open>a\<close> and \<open>b\<close> of these constants: the output statement and \<open>return 0\<close>.
  The result is the returned value together with the state of \<open>std::cout\<close>.
\<close>

definition main_ab :: "(int \<Rightarrow> int \<Rightarrow> int) \<Rightarrow> int \<Rightarrow> int \<Rightarrow> ostream \<Rightarrow> int \<times> ostream" where
  "main_ab mx a b os = (0, print_maximum mx a b os)"

text \<open>
  \<open>int main()\<close>: the two compile-time constants \<open>a = 2\<close> and \<open>b = 4\<close>, then the
  statements above.
\<close>

definition main :: "(int \<Rightarrow> int \<Rightarrow> int) \<Rightarrow> ostream \<Rightarrow> int \<times> ostream" where
  "main mx os = (let a = 2; b = 4 in main_ab mx a b os)"

text \<open>
  A run of the executable. The process is started with command-line arguments and an
  environment; \<open>main\<close> is declared without parameters and reads no environment
  variable, and it starts with an empty standard output. A run yields the exit status
  (the value returned by \<open>main\<close>) and the text written to standard output.
\<close>

record process_env =
  argv :: "string list"
  envp :: "(string \<times> string) list"

definition run :: "(int \<Rightarrow> int \<Rightarrow> int) \<Rightarrow> process_env \<Rightarrow> int \<times> string" where
  "run mx pe = (case main mx \<lparr>content = []\<rparr> of (status, os) \<Rightarrow> (status, content os))"

section \<open>Executions that may not return\<close>







section \<open>Reading a decimal text\<close>

text \<open>
  The number that a decimal text denotes: the digits are read from the left, after an
  optional minus sign. It is used to say which value a printed text shows.
\<close>

definition digit_value :: "char \<Rightarrow> nat" where
  "digit_value c = of_char c - of_char CHR ''0''"

definition decimal_nat :: "string \<Rightarrow> nat" where
  "decimal_nat s = foldl (\<lambda>acc c. 10 * acc + digit_value c) 0 s"

definition decimal_value :: "string \<Rightarrow> int" where
  "decimal_value s =
     (case s of
        [] \<Rightarrow> 0
      | c # cs \<Rightarrow> if c = CHR ''-'' then - int (decimal_nat cs) else int (decimal_nat s))"

section \<open>Facts about the formatting and the output statement\<close>

lemma show_nat_digit: "n < 10 \<Longrightarrow> show_nat n = [digit_char n]"
  by (subst show_nat.simps) simp

lemma show_nat_step:
  "\<not> n < 10 \<Longrightarrow> show_nat n = show_nat (n div 10) @ [digit_char (n mod 10)]"
  by (subst show_nat.simps) simp

lemma show_int_2: "show_int 2 = ''2''"
  by (simp add: show_int_def show_nat_digit digit_char_def)

lemma show_int_4: "show_int 4 = ''4''"
  by (simp add: show_int_def show_nat_digit digit_char_def)


lemma digit_char_not_newline: "d < 10 \<Longrightarrow> digit_char d \<noteq> newline"
proof -
  assume "d < 10"
  then have "digit_char d \<in> set ''0123456789''"
    unfolding digit_char_def by (intro nth_mem) simp
  then show ?thesis by (auto simp: newline_def)
qed

lemma newline_notin_show_nat: "newline \<notin> set (show_nat n)"
proof (induction n rule: show_nat.induct)
  case (1 n)
  show ?case
  proof (cases "n < 10")
    case True
    then show ?thesis
      by (simp add: show_nat_digit digit_char_not_newline [symmetric])
  next
    case False
    have "n mod 10 < 10" by simp
    then have "digit_char (n mod 10) \<noteq> newline" by (rule digit_char_not_newline)
    moreover from False 1 have "newline \<notin> set (show_nat (n div 10))" by simp
    ultimately show ?thesis using False
      by (simp add: show_nat_step)
  qed
qed

lemma newline_notin_show_int: "newline \<notin> set (show_int i)"
  by (simp add: show_int_def newline_notin_show_nat) (simp add: newline_def)

lemma content_print_maximum:
  "content (print_maximum mx a b os) =
     content os @ ''The maximum of '' @ show_int a @ '' and '' @ show_int b @ '' is: ''
       @ show_int (mx a b) @ [newline]"
  by (simp add: print_maximum_def put_str_def put_int_def endl_def)

lemma main_eq: "main mx os = (0, print_maximum mx 2 4 os)"
  by (simp add: main_def main_ab_def)

lemma run_eq:
  "run mx pe = (0, ''The maximum of 2 and 4 is: '' @ show_int (mx 2 4) @ [newline])"
  by (simp add: run_def main_eq content_print_maximum show_int_2 show_int_4)

lemma max_2_4: "cmake_tutorial_max (2::int) 4 = 4"
  by (simp add: cmake_tutorial_max_def)


lemma digit_cases:
  "d < 10 \<Longrightarrow> d = 0 \<or> d = 1 \<or> d = 2 \<or> d = 3 \<or> d = 4 \<or> d = 5 \<or> d = 6 \<or> d = 7 \<or> d = 8 \<or> d = (9::nat)"
  by arith

lemma digit_value_digit_char: "d < 10 \<Longrightarrow> digit_value (digit_char d) = d"
  using digit_cases [of d] by (auto simp: digit_value_def digit_char_def)

lemma digit_char_not_minus: "d < 10 \<Longrightarrow> digit_char d \<noteq> CHR ''-''"
  using digit_cases [of d] by (auto simp: digit_char_def)

lemma show_nat_not_Nil: "show_nat n \<noteq> []"
  by (cases "n < 10") (simp_all add: show_nat_digit show_nat_step)

lemma hd_show_nat_not_minus: "hd (show_nat n) \<noteq> CHR ''-''"
proof (induction n rule: show_nat.induct)
  case (1 n)
  show ?case
  proof (cases "n < 10")
    case True
    then show ?thesis by (simp add: show_nat_digit digit_char_not_minus)
  next
    case False
    with 1 have "hd (show_nat (n div 10)) \<noteq> CHR ''-''" by simp
    with False show ?thesis by (simp add: show_nat_step show_nat_not_Nil)
  qed
qed

lemma show_int_not_Nil: "show_int i \<noteq> []"
  by (simp add: show_int_def show_nat_not_Nil)

lemma decimal_nat_snoc: "decimal_nat (s @ [c]) = 10 * decimal_nat s + digit_value c"
  by (simp add: decimal_nat_def)

lemma decimal_nat_show_nat: "decimal_nat (show_nat n) = n"
proof (induction n rule: show_nat.induct)
  case (1 n)
  show ?case
  proof (cases "n < 10")
    case True
    then show ?thesis
      by (simp add: show_nat_digit decimal_nat_def digit_value_digit_char)
  next
    case False
    with 1 have "decimal_nat (show_nat (n div 10)) = n div 10" by simp
    with False show ?thesis
      by (simp add: show_nat_step decimal_nat_snoc digit_value_digit_char)
  qed
qed

lemma decimal_value_show_nat: "decimal_value (show_nat n) = int n"
proof (cases "show_nat n")
  case Nil
  then show ?thesis by (simp add: show_nat_not_Nil)
next
  case (Cons c cs)
  with hd_show_nat_not_minus [of n] have "c \<noteq> CHR ''-''" by simp
  with Cons decimal_nat_show_nat [of n] show ?thesis by (simp add: decimal_value_def)
qed

lemma decimal_value_show_int: "decimal_value (show_int i) = i"
proof (cases "i < 0")
  case True
  then show ?thesis by (simp add: show_int_def decimal_value_def decimal_nat_show_nat)
next
  case False
  then show ?thesis by (simp add: show_int_def decimal_value_show_nat)
qed







section \<open>Properties of the maximum\<close>

text \<open>
  C1. For every pair of values \<open>(a, b)\<close>, \<open>max(a, b)\<close> equals the reference maximum: it
  is \<open>b\<close> when \<open>a < b\<close>, it is \<open>a\<close> when \<open>a > b\<close>, it is \<open>a\<close> when the two arguments are
  equal, and the returned value is not smaller than either argument.
\<close>

theorem cmake_tutorial_max_reference:
  fixes a b :: "'a::linorder"
  shows "cmake_tutorial_max a b = max a b
    \<and> (a < b \<longrightarrow> cmake_tutorial_max a b = b)
    \<and> (b < a \<longrightarrow> cmake_tutorial_max a b = a)
    \<and> cmake_tutorial_max a a = a
    \<and> a \<le> cmake_tutorial_max a b \<and> b \<le> cmake_tutorial_max a b"
  by (auto simp: cmake_tutorial_max_def max_def)

theorem cmake_tutorial_max_reference_witness:
  "(2::int) < 4 \<and> cmake_tutorial_max (2::int) 4 = 4
    \<and> (2::int) < 4 \<and> cmake_tutorial_max (4::int) 2 = 4
    \<and> cmake_tutorial_max (7::int) 7 = 7"
  using cmake_tutorial_max_reference [of "2::int" 4]
    cmake_tutorial_max_reference [of "4::int" 2]
    cmake_tutorial_max_reference [of "7::int" 7]
  by simp

text \<open>
  C4. For all values \<open>a\<close> and \<open>b\<close>, \<open>max(a, b) = max(b, a)\<close>: swapping the arguments does
  not change the returned value.
\<close>

theorem cmake_tutorial_max_commute:
  fixes a b :: "'a::linorder"
  shows "cmake_tutorial_max a b = cmake_tutorial_max b a"
  by (auto simp: cmake_tutorial_max_def)

section \<open>Properties of the program\<close>

text \<open>
  C2. For the program as built (inputs 2 and 4), a run writes a text that contains "2",
  "4" and "4", the last being the computed maximum, and exits with status 0. The text is
  the line \<open>The maximum of 2 and 4 is: 4\<close>.
\<close>

theorem run_prints_2_4_4:
  "run cmake_tutorial_max pe =
     (0, ''The maximum of '' @ ''2'' @ '' and '' @ ''4'' @ '' is: ''
           @ show_int (cmake_tutorial_max 2 4) @ [newline])
   \<and> show_int (cmake_tutorial_max 2 4) = ''4''
   \<and> run cmake_tutorial_max pe = (0, ''The maximum of 2 and 4 is: 4'' @ [newline])"
  by (simp add: run_eq max_2_4 show_int_4)

text \<open>
  C3. Every run of the program writes exactly one line to standard output, and that line
  contains both input values and the computed maximum: the output is the label with the
  texts \<open>2\<close> and \<open>4\<close> of the two inputs and the decimal text of the maximum, which is
  not empty and reads back as the value that \<open>max\<close> returned, ended by the only newline
  character in it.
\<close>

theorem run_writes_one_line:
  "snd (run mx pe) =
     ''The maximum of '' @ ''2'' @ '' and '' @ ''4'' @ '' is: '' @ show_int (mx 2 4) @ [newline]
   \<and> show_int 2 = ''2'' \<and> show_int 4 = ''4''
   \<and> show_int (mx 2 4) \<noteq> []
   \<and> decimal_value (show_int (mx 2 4)) = mx 2 4
   \<and> count_list (snd (run mx pe)) newline = 1
   \<and> last (snd (run mx pe)) = newline"
proof -
  have "count_list (show_int (mx 2 4)) newline = 0"
    by (simp add: newline_notin_show_int)
  then have "count_list (''The maximum of 2 and 4 is: '' @ show_int (mx 2 4) @ [newline]) newline = 1"
    by (simp add: newline_def)
  then show ?thesis
    by (simp add: run_eq show_int_2 show_int_4 show_int_not_Nil decimal_value_show_int)
qed

text \<open>
  C5. Every run of the program ends with exit status 0: \<open>main\<close> returns 0 from every
  state of the output stream, so there is no path with another status.
\<close>

theorem run_exit_status_0:
  "fst (run mx pe) = 0 \<and> fst (main mx os) = 0"
  by (simp add: run_eq main_eq)


text \<open>
  C8. The entry point consumes no command-line argument, flag or environment variable:
  any two runs, whatever arguments and environment they are given, have the same output
  and the same exit status.
\<close>

theorem run_ignores_process_env:
  "run mx pe = run mx pe'"
  by (simp add: run_def)

text \<open>
  C9. The two inputs are the constants 2 and 4 on every run: \<open>main\<close> is the output
  statement at 2 and 4, and the output of every run, whatever the process is given, is
  exactly the text \<open>The maximum of 2 and 4 is: \<close> followed by the value of
  \<open>max(2, 4)\<close> and the end of the line.
\<close>

theorem run_fixed_inputs:
  "main mx os = (0, print_maximum mx 2 4 os)
   \<and> run mx pe = (0, ''The maximum of 2 and 4 is: '' @ show_int (mx 2 4) @ [newline])"
  by (simp add: main_eq run_eq)


end
